theory Spec2Isabelle
  imports Main "HOL-Library.AList"
begin

section \<open>Python values and strings\<close>

text \<open>
  The module \<^verbatim>\<open>velruse/providers/openidconsumer.py\<close> is Python 2 code written
  against the python-openid library. Strings are byte strings (\<^typ>\<open>string\<close>), Python's
  \<^verbatim>\<open>None\<close> is \<^term>\<open>None\<close> of an option type where a value is a string or
  \<^verbatim>\<open>None\<close>, and the heterogeneous values of the profile dictionary are a datatype.
  A dictionary that the code builds and iterates is an association list with distinct
  keys, assignment \<^verbatim>\<open>d[k] = v\<close> is \<^const>\<open>AList.update\<close> and \<^verbatim>\<open>del d[k]\<close> is
  \<^const>\<open>AList.delete\<close>. Exceptions are values of the type \<open>error\<close>.
\<close>

datatype error = KeyError | TypeError | AttributeError

datatype pyval =
    PNone
  | PStr string
  | PDict "(string \<times> pyval) list"
  | PList "pyval list"

type_synonym dict = "(string \<times> pyval) list"

text \<open>Python truthiness: \<^verbatim>\<open>None\<close>, the empty string, the empty dictionary and the
  empty list are false, everything else is true.\<close>

fun truthy :: "pyval \<Rightarrow> bool" where
  "truthy PNone = False"
| "truthy (PStr s) = (s \<noteq> [])"
| "truthy (PDict d) = (d \<noteq> [])"
| "truthy (PList l) = (l \<noteq> [])"

text \<open>A value that is a string or \<^verbatim>\<open>None\<close>, as \<^verbatim>\<open>AttribAccess.get\<close> returns it.\<close>

fun of_opt :: "string option \<Rightarrow> pyval" where
  "of_opt None = PNone"
| "of_opt (Some s) = PStr s"

fun truthy_opt :: "string option \<Rightarrow> bool" where
  "truthy_opt None = False"
| "truthy_opt (Some s) = (s \<noteq> [])"

text \<open>\<^verbatim>\<open>a or b\<close>\<close>

definition py_or :: "pyval \<Rightarrow> pyval \<Rightarrow> pyval" where
  "py_or a b = (if truthy a then a else b)"

text \<open>\<^verbatim>\<open>d.get(k)\<close> on a dictionary of the model.\<close>

definition dict_get :: "dict \<Rightarrow> string \<Rightarrow> pyval" where
  "dict_get d k = (case map_of d k of None \<Rightarrow> PNone | Some v \<Rightarrow> v)"

text \<open>\<^verbatim>\<open>sub in s\<close> on strings: \<open>sub\<close> occurs in \<open>s\<close> as a contiguous substring.\<close>

fun starts_with :: "string \<Rightarrow> string \<Rightarrow> bool" where
  "starts_with [] s = True"
| "starts_with (p # ps) [] = False"
| "starts_with (p # ps) (c # cs) = (p = c \<and> starts_with ps cs)"

fun contains :: "string \<Rightarrow> string \<Rightarrow> bool" where
  "contains sub [] = (sub = [])"
| "contains sub (c # cs) = (starts_with sub (c # cs) \<or> contains sub cs)"

text \<open>\<^verbatim>\<open>' '.join(xs)\<close>\<close>

fun join_space :: "string list \<Rightarrow> string" where
  "join_space [] = []"
| "join_space [x] = x"
| "join_space (x # y # ys) = x @ '' '' @ join_space (y # ys)"

text \<open>\<^verbatim>\<open>s.strip()\<close> of a byte string: the whitespace characters are space, tab, line
  feed, vertical tab, form feed and carriage return.\<close>

definition is_space :: "char \<Rightarrow> bool" where
  "is_space c = (c \<in> {CHR '' '', CHR 0x09, CHR 0x0A, CHR 0x0B, CHR 0x0C, CHR 0x0D})"

definition strip :: "string \<Rightarrow> string" where
  "strip s = rev (dropWhile is_space (rev (dropWhile is_space s)))"

text \<open>
  \<^verbatim>\<open>re.match('(^.*?)@', s)\<close>: the match is anchored at the start of \<open>s\<close>, the group is the
  shortest run of characters other than line feed that is followed by \<^verbatim>\<open>@\<close>. The result
  is the first group of the match, or \<^term>\<open>None\<close> when there is no match (the Python
  value \<^verbatim>\<open>None\<close>, on which \<^verbatim>\<open>.groups()\<close> raises).
\<close>

fun re_match_local :: "string \<Rightarrow> string option" where
  "re_match_local [] = None"
| "re_match_local (c # cs) =
     (if c = CHR ''@'' then Some []
      else if c = CHR 0x0A then None
      else map_option ((#) c) (re_match_local cs))"

section \<open>The attribute tables\<close>

definition ax_attributes :: "(string \<times> string) list" where
  "ax_attributes =
    [(''nickname'', ''http://axschema.org/namePerson/friendly''),
     (''email'', ''http://axschema.org/contact/email''),
     (''full_name'', ''http://axschema.org/namePerson''),
     (''birthday'', ''http://axschema.org/birthDate''),
     (''gender'', ''http://axschema.org/person/gender''),
     (''postal_code'', ''http://axschema.org/contact/postalCode/home''),
     (''country'', ''http://axschema.org/contact/country/home''),
     (''timezone'', ''http://axschema.org/pref/timezone''),
     (''language'', ''http://axschema.org/pref/language''),
     (''name_prefix'', ''http://axschema.org/namePerson/prefix''),
     (''first_name'', ''http://axschema.org/namePerson/first''),
     (''last_name'', ''http://axschema.org/namePerson/last''),
     (''middle_name'', ''http://axschema.org/namePerson/middle''),
     (''name_suffix'', ''http://axschema.org/namePerson/suffix''),
     (''web'', ''http://axschema.org/contact/web/default'')]"

definition trans_dict :: "(string \<times> string) list" where
  "trans_dict =
    [(''full_name'', ''fullname''),
     (''birthday'', ''dob''),
     (''postal_code'', ''postcode'')]"

text \<open>
  \<^verbatim>\<open>sreg.data_fields\<close> belongs to the python-openid library, so the functions below take
  the recognised registration field names as their first argument \<open>flds\<close>. The list
  here holds the nine registration fields the module itself requests in
  \<^verbatim>\<open>_update_authrequest\<close>; it instantiates \<open>flds\<close> in the concrete evaluations.
\<close>

definition sreg_data_fields :: "string list" where
  "sreg_data_fields =
    [''nickname'', ''email'', ''fullname'', ''dob'', ''gender'', ''postcode'',
     ''country'', ''language'', ''timezone'']"

section \<open>AttribAccess\<close>

text \<open>
  A simple-registration response is a mapping from field names to strings. An
  attribute-exchange response is read only through \<^verbatim>\<open>getSingle(type_uri)\<close>, so it is
  the mapping from a type URI to the value \<^verbatim>\<open>getSingle\<close> returns for it (a response
  on which \<^verbatim>\<open>getSingle\<close> itself raises, because it holds several values under one
  URI, is outside the model). Either response may be \<^verbatim>\<open>None\<close>; the constructor
  replaces a missing one by an empty one.
\<close>

type_synonym sreg_response = "string \<rightharpoonup> string"
type_synonym ax_response = "string \<rightharpoonup> string"

record AttribAccess =
  sreg_resp :: sreg_response
  ax_resp :: ax_response

definition AttribAccess_init :: "sreg_response option \<Rightarrow> ax_response option \<Rightarrow> AttribAccess" where
  "AttribAccess_init sreg ax =
     \<lparr>sreg_resp = (case sreg of None \<Rightarrow> Map.empty | Some r \<Rightarrow> r),
      ax_resp = (case ax of None \<Rightarrow> Map.empty | Some r \<Rightarrow> r)\<rparr>"

definition AttribAccess_get :: "string list \<Rightarrow> AttribAccess \<Rightarrow> string \<Rightarrow> bool \<Rightarrow> error + string option" where
  "AttribAccess_get flds self key ax_only =
     (case map_of ax_attributes key of
        None \<Rightarrow> Inl KeyError
      | Some uri \<Rightarrow>
          (let v = ax_resp self uri in
           if truthy_opt v then Inr v
           else if ax_only then Inr None
           else
             (let key' = (case map_of trans_dict key of Some k \<Rightarrow> k | None \<Rightarrow> key) in
              if key' \<notin> set flds then Inr None
              else Inr (sreg_resp self key'))))"

section \<open>extract_openid_data\<close>

text \<open>Sequencing of steps that may raise: the first exception ends the function.\<close>

definition bind_err :: "error + 'a \<Rightarrow> ('a \<Rightarrow> error + 'b) \<Rightarrow> error + 'b" where
  "bind_err m f = (case m of Inl e \<Rightarrow> Inl e | Inr v \<Rightarrow> f v)"

text \<open>\<^verbatim>\<open>d[k]\<close> raises \<^verbatim>\<open>KeyError\<close> on a missing key.\<close>

definition dict_item :: "dict \<Rightarrow> string \<Rightarrow> error + pyval" where
  "dict_item d k = (case map_of d k of None \<Rightarrow> Inl KeyError | Some v \<Rightarrow> Inr v)"

definition name_keys :: "string list" where
  "name_keys = [''name_prefix'', ''first_name'', ''middle_name'', ''last_name'', ''name_suffix'']"

definition pcard_map :: "(string \<times> string) list" where
  "pcard_map =
    [(''first_name'', ''givenName''), (''middle_name'', ''middleName''),
     (''last_name'', ''familyName''), (''name_prefix'', ''honorificPrefix''),
     (''name_suffix'', ''honorificSuffix'')]"

text \<open>
  The loop over \<^verbatim>\<open>name_keys\<close>: the state is the pair of \<^verbatim>\<open>full_name_vals\<close> and the
  dictionary \<^verbatim>\<open>name\<close>.
\<close>

fun name_loop ::
  "string list \<Rightarrow> AttribAccess \<Rightarrow> string list \<Rightarrow> string list \<times> dict \<Rightarrow> error + string list \<times> dict"
where
  "name_loop flds attribs [] acc = Inr acc"
| "name_loop flds attribs (part # parts) (full_name_vals, name) =
     (case AttribAccess_get flds attribs part False of
        Inl e \<Rightarrow> Inl e
      | Inr None \<Rightarrow> name_loop flds attribs parts (full_name_vals, name)
      | Inr (Some val) \<Rightarrow>
          if val = [] then name_loop flds attribs parts (full_name_vals, name)
          else
            (case map_of pcard_map part of
               None \<Rightarrow> Inl KeyError
             | Some pk \<Rightarrow>
                 name_loop flds attribs parts
                   (full_name_vals @ [val], AList.update pk (PStr val) name)))"

text \<open>The loop \<^verbatim>\<open>for k in ['gender', 'birthday']: ud[k] = attribs.get(k)\<close>.\<close>

fun copy_loop :: "string list \<Rightarrow> AttribAccess \<Rightarrow> string list \<Rightarrow> dict \<Rightarrow> error + dict" where
  "copy_loop flds attribs [] ud = Inr ud"
| "copy_loop flds attribs (k # ks) ud =
     (case AttribAccess_get flds attribs k False of
        Inl e \<Rightarrow> Inl e
      | Inr v \<Rightarrow> copy_loop flds attribs ks (AList.update k (of_opt v) ud))"

text \<open>
  The final loop \<^verbatim>\<open>for k, v in ud.items(): if not v: del ud[k]\<close>. In Python 2
  \<^verbatim>\<open>ud.items()\<close> is a list holding a snapshot of the entries, so the loop runs over the
  entries the dictionary had when the loop began and deletes from the dictionary itself.
\<close>

definition strip_empty :: "dict \<Rightarrow> dict" where
  "strip_empty ud = fold (\<lambda>(k, v) d. if \<not> truthy v then AList.delete k d else d) ud ud"

definition extract_openid_data ::
  "string list \<Rightarrow> string \<Rightarrow> sreg_response option \<Rightarrow> ax_response option \<Rightarrow> error + dict"
where
  "extract_openid_data flds identifier sreg ax =
    (let attribs = AttribAccess_init sreg ax;
         ud = [(''identifier'', PStr identifier)];
         ud = (if contains ''google.com'' identifier then
                 AList.update ''providerName'' (PStr ''Google'') ud
               else if contains ''yahoo.com'' identifier then
                 AList.update ''providerName'' (PStr ''Yahoo'') ud
               else AList.update ''providerName'' (PStr ''OpenID'') ud)
     in
     bind_err (dict_item ud ''providerName'') (\<lambda>providerName.
     bind_err
       (if providerName = PStr ''Google'' then
          bind_err (AttribAccess_get flds attribs ''email'' False) (\<lambda>email.
            case email of
              None \<Rightarrow> Inl TypeError
            | Some e \<Rightarrow>
                (case re_match_local e of
                   None \<Rightarrow> Inl AttributeError
                 | Some g \<Rightarrow> Inr (AList.update ''preferredUsername'' (PStr g) ud)))
        else
          bind_err (AttribAccess_get flds attribs ''nickname'' False) (\<lambda>nickname.
            Inr (AList.update ''preferredUsername'' (of_opt nickname) ud))) (\<lambda>ud.
     bind_err
       (if providerName \<in> set [PStr ''Google'', PStr ''Yahoo''] then
          bind_err (AttribAccess_get flds attribs ''email'' True) (\<lambda>email.
            Inr (AList.update ''verifiedEmail'' (of_opt email) ud))
        else Inr ud) (\<lambda>ud.
     bind_err (name_loop flds attribs name_keys ([], [])) (\<lambda>(full_name_vals, name).
     bind_err
       (let full_name = strip (join_space full_name_vals) in
        if full_name = [] then AttribAccess_get flds attribs ''full_name'' False
        else Inr (Some full_name)) (\<lambda>full_name.
     let name = AList.update ''formatted'' (of_opt full_name) name;
         ud = AList.update ''name'' (PDict name) ud;
         ud = AList.update ''displayName''
                (py_or (of_opt full_name) (dict_get ud ''preferredUsername'')) ud
     in
     bind_err (AttribAccess_get flds attribs ''web'' False) (\<lambda>urls.
     let ud = (if truthy_opt urls then AList.update ''urls'' (PList [of_opt urls]) ud else ud)
     in
     bind_err (copy_loop flds attribs [''gender'', ''birthday''] ud) (\<lambda>ud.
     Inr (strip_empty ud)))))))))"

section \<open>The OpenID consumer\<close>

text \<open>
  The responder works against three collaborators that are not part of the module: the
  python-openid consumer, the keyed storage and the helpers of \<^verbatim>\<open>velruse.utils\<close>.
  The results of the library calls are parameters of the model; the storage is a state
  that \<^verbatim>\<open>login\<close> and \<^verbatim>\<open>process\<close> take and return.
\<close>

subsection \<open>Storage\<close>

text \<open>
  Modelled from the spec: the keyed storage collaborator, with
  \<^verbatim>\<open>store(key, value, expires_in_seconds)\<close>, \<^verbatim>\<open>retrieve(key) -> value|absent\<close> and
  \<^verbatim>\<open>delete(key)\<close>. The stored values are dictionaries (the state of an attempt, or a
  result envelope). The state also records the calls made, in order. Expiry is a matter
  of real time and is left out: a record stays until it is deleted.
\<close>

datatype storage_call = Store string | Retrieve string | Delete string

record world =
  storage :: "(string \<times> dict) list"
  calls :: "storage_call list"

definition storage_store :: "string \<Rightarrow> dict \<Rightarrow> world \<Rightarrow> world" where
  "storage_store key val w =
     w\<lparr>storage := AList.update key val (storage w), calls := calls w @ [Store key]\<rparr>"

definition storage_retrieve :: "string \<Rightarrow> world \<Rightarrow> dict option \<times> world" where
  "storage_retrieve key w = (map_of (storage w) key, w\<lparr>calls := calls w @ [Retrieve key]\<rparr>)"

definition storage_delete :: "string \<Rightarrow> world \<Rightarrow> world" where
  "storage_delete key w =
     w\<lparr>storage := AList.delete key (storage w), calls := calls w @ [Delete key]\<rparr>"

text \<open>\<^verbatim>\<open>if not openid_session\<close>: the retrieved value is absent or an empty dictionary.\<close>

fun truthy_stored :: "dict option \<Rightarrow> bool" where
  "truthy_stored None = False"
| "truthy_stored (Some d) = (d \<noteq> [])"

subsection \<open>Responses\<close>

text \<open>
  The responses a handler returns: the result of \<^verbatim>\<open>self._error_redirect(code, end_point)\<close>,
  \<^verbatim>\<open>exc.HTTPFound(location=url)\<close>, \<^verbatim>\<open>Response(body=html)\<close>, and the response whose body
  is \<^verbatim>\<open>autoSubmitHTML(utils.redirect_form(end_point, token))\<close>.
\<close>

datatype response =
    ErrorRedirect int string
  | HTTPFound string
  | Response string
  | FormResponse string string

text \<open>
  Modelled from the spec: \<^verbatim>\<open>_error_redirect\<close> of \<^verbatim>\<open>utils.RouteResponder\<close>. Every error
  path redirects to the caller-provided end point carrying a numeric error code and the
  original end point.
\<close>

definition error_redirect :: "int \<Rightarrow> string \<Rightarrow> response" where
  "error_redirect error_code end_point = ErrorRedirect error_code end_point"

subsection \<open>The python-openid consumer\<close>

datatype status = SUCCESS | FAILURE | CANCEL | OTHER

text \<open>
  What \<^verbatim>\<open>process\<close> reads from the object \<^verbatim>\<open>oidconsumer.complete\<close> returns: its status
  (\<open>OTHER\<close> is any status that is none of the three the code names), the claimed
  identifier, \<^verbatim>\<open>info.endpoint.canonicalID\<close>, the two attribute responses obtained by
  \<^verbatim>\<open>fromSuccessResponse(info)\<close>, and the arguments of the OAuth extension.
\<close>

record info =
  status :: status
  identity_url :: string
  canonicalID :: "string option"
  sreg_response_of :: "sreg_response option"
  ax_response_of :: "ax_response option"
  oauth_response_of :: "(string \<times> string) list option"

datatype extension = FetchRequest "string list" | SRegRequest "string list"

record authrequest =
  shouldSendRedirect :: bool
  extensions :: "extension list"

text \<open>
  \<^verbatim>\<open>oidconsumer.begin(openid_url)\<close> raises \<^verbatim>\<open>DiscoveryFailure\<close>, returns \<^verbatim>\<open>None\<close>, or
  returns an auth request and leaves its own state in the dictionary
  \<^verbatim>\<open>openid_session\<close> the consumer was created with.
\<close>

datatype begin_result = DiscoveryFailure | NoRequest | AuthRequest authrequest dict

record openid_library =
  consumer_begin :: "string \<Rightarrow> begin_result"
  redirectURL :: "authrequest \<Rightarrow> string \<Rightarrow> string \<Rightarrow> string"
  htmlMarkup :: "authrequest \<Rightarrow> string \<Rightarrow> string \<Rightarrow> string"
  consumer_complete :: "dict \<Rightarrow> (string \<times> string) list \<Rightarrow> string \<Rightarrow> info"

subsection \<open>OpenIDResponder\<close>

text \<open>
  The responder holds the realm and the end point pattern; \<open>endpoint_regex self s\<close> says
  whether \<^verbatim>\<open>re.match(self.endpoint_regex, s)\<close> finds a match. A request carries its form
  fields, its parameters, the caller's session (its id and its dictionary) and the URL
  \<^verbatim>\<open>req.link('process', qualified=True)\<close>.
\<close>

record OpenIDResponder =
  realm :: string
  endpoint_regex :: "string \<Rightarrow> bool"

record request =
  POST :: "(string \<times> string) list"
  params :: "(string \<times> string) list"
  session_id :: string
  session :: "(string \<times> string) list"
  link_process :: string

definition lookup_identifier :: "request \<Rightarrow> string \<Rightarrow> string" where
  "lookup_identifier req identifier = identifier"

definition update_authrequest :: "request \<Rightarrow> authrequest \<Rightarrow> authrequest" where
  "update_authrequest req authrequest =
     (let ax_request = FetchRequest (map snd ax_attributes);
          authrequest = authrequest\<lparr>extensions := extensions authrequest @ [ax_request]\<rparr>;
          sreg_request = SRegRequest
            [''nickname'', ''email'', ''fullname'', ''dob'', ''gender'', ''postcode'',
             ''country'', ''language'', ''timezone'']
      in authrequest\<lparr>extensions := extensions authrequest @ [sreg_request]\<rparr>)"

definition get_access_token :: "string \<Rightarrow> pyval" where
  "get_access_token request_token = PNone"

definition login ::
  "OpenIDResponder \<Rightarrow> openid_library \<Rightarrow> request \<Rightarrow> world \<Rightarrow>
     error + response \<times> (string \<times> string) list \<times> world"
where
  "login self lib req w =
    (case map_of (POST req) ''end_point'' of
       None \<Rightarrow> Inl KeyError
     | Some end_point \<Rightarrow>
        (let openid_url = map_of (POST req) ''openid_identifier'' in
         if \<not> truthy_opt openid_url \<or> \<not> endpoint_regex self end_point then
           Inr (error_redirect 0 end_point, session req, w)
         else
           (case consumer_begin lib (lookup_identifier req (the openid_url)) of
              DiscoveryFailure \<Rightarrow> Inr (error_redirect 1 end_point, session req, w)
            | NoRequest \<Rightarrow> Inr (error_redirect 1 end_point, session req, w)
            | AuthRequest authrequest openid_session \<Rightarrow>
               (let authrequest = update_authrequest req authrequest;
                    return_to = link_process req;
                    sess = AList.update ''end_point'' end_point (session req)
                in
                if shouldSendRedirect authrequest then
                  (let redirect_url = redirectURL lib authrequest (realm self) return_to;
                       w = storage_store (session_id req) openid_session w
                   in Inr (HTTPFound redirect_url, sess, w))
                else
                  (let html = htmlMarkup lib authrequest (realm self) return_to;
                       w = storage_store (session_id req) openid_session w
                   in Inr (Response html, sess, w))))))"

text \<open>
  \<^verbatim>\<open>process\<close>; the argument \<open>token\<close> is the string \<^verbatim>\<open>utils.generate_token()\<close> returns
  when the handler calls it.
\<close>

definition process ::
  "string list \<Rightarrow> openid_library \<Rightarrow> request \<Rightarrow> string \<Rightarrow> world \<Rightarrow> error + response \<times> world"
where
  "process flds lib req token w =
    (case map_of (session req) ''end_point'' of
       None \<Rightarrow> Inl KeyError
     | Some end_point \<Rightarrow>
        (let (openid_session, w) = storage_retrieve (session_id req) w in
         if \<not> truthy_stored openid_session then Inr (error_redirect 1 end_point, w)
         else
           (let info = consumer_complete lib (the openid_session) (params req) (link_process req)
            in
            if status info \<in> set [FAILURE, CANCEL] then Inr (error_redirect 2 end_point, w)
            else if status info = SUCCESS then
              (let openid_identity = identity_url info;
                   openid_identity =
                     (if truthy_opt (canonicalID info) then the (canonicalID info)
                      else openid_identity)
               in
               bind_err
                 (extract_openid_data flds openid_identity
                    (sreg_response_of info) (ax_response_of info)) (\<lambda>user_data.
               let result_data = [(''status'', PStr ''ok''), (''profile'', PDict user_data)];
                   result_data =
                     (case oauth_response_of info of
                        None \<Rightarrow> result_data
                      | Some oauth \<Rightarrow>
                          (case map_of oauth ''request_token'' of
                             None \<Rightarrow> result_data
                           | Some request_token \<Rightarrow>
                               (let access_token = get_access_token request_token in
                                if truthy access_token then
                                  AList.update ''credentials'' access_token result_data
                                else result_data)));
                   w = storage_delete (session_id req) w;
                   w = storage_store token result_data w
               in Inr (FormResponse end_point token, w)))
            else Inr (error_redirect 1 end_point, w))))"

section \<open>Notions used in the statements\<close>

text \<open>
  The definitions of this section are not translations of source functions. They name
  the values the statements below speak about, and each is tied to the model above by a
  lemma.
\<close>

text \<open>The value \<^verbatim>\<open>attribs.get(key, ax_only)\<close> returns (\<^term>\<open>None\<close> also when it raises).\<close>

definition get_value :: "string list \<Rightarrow> AttribAccess \<Rightarrow> string \<Rightarrow> bool \<Rightarrow> string option" where
  "get_value flds a key ax_only =
     (case AttribAccess_get flds a key ax_only of Inl e \<Rightarrow> None | Inr v \<Rightarrow> v)"

text \<open>The name parts that are present (non-empty), in the order of the given keys.\<close>

definition present_vals :: "string list \<Rightarrow> AttribAccess \<Rightarrow> string list \<Rightarrow> string list" where
  "present_vals flds a parts =
     concat (map (\<lambda>p. case get_value flds a p False of
                         None \<Rightarrow> []
                       | Some s \<Rightarrow> if s = [] then [] else [s]) parts)"

text \<open>
  The value of the variable \<^verbatim>\<open>full_name\<close> after the name loop: the present name parts
  joined by spaces and stripped, or the attribute \<^verbatim>\<open>full_name\<close> when that string is
  empty.
\<close>

definition formatted_name :: "string list \<Rightarrow> AttribAccess \<Rightarrow> string option" where
  "formatted_name flds a =
     (let joined = strip (join_space (present_vals flds a name_keys))
      in if joined = [] then get_value flds a ''full_name'' False else Some joined)"

text \<open>The three-way branch on the identifier.\<close>

definition provider_name :: "string \<Rightarrow> string" where
  "provider_name identifier =
     (if contains ''google.com'' identifier then ''Google''
      else if contains ''yahoo.com'' identifier then ''Yahoo''
      else ''OpenID'')"

text \<open>The preferred username, or the exception its derivation raises.\<close>

definition preferred :: "string list \<Rightarrow> AttribAccess \<Rightarrow> string \<Rightarrow> error + string option" where
  "preferred flds a identifier =
     (if contains ''google.com'' identifier then
        (case get_value flds a ''email'' False of
           None \<Rightarrow> Inl TypeError
         | Some e \<Rightarrow>
             (case re_match_local e of
                None \<Rightarrow> Inl AttributeError
              | Some g \<Rightarrow> Inr (Some g)))
      else Inr (get_value flds a ''nickname'' False))"

text \<open>The dictionary \<^verbatim>\<open>ud\<close> as it stands before the final loop removes its empty values,
  given the preferred username \<open>pu\<close> and the name dictionary \<open>nm0\<close> the name loop built.\<close>

definition final_ud ::
  "string list \<Rightarrow> AttribAccess \<Rightarrow> string \<Rightarrow> string option \<Rightarrow> dict \<Rightarrow> dict"
where
  "final_ud flds a identifier pu nm0 =
     (let ud = AList.update ''preferredUsername'' (of_opt pu)
                 (AList.update ''providerName'' (PStr (provider_name identifier))
                    [(''identifier'', PStr identifier)]);
          ud = (if contains ''google.com'' identifier \<or> contains ''yahoo.com'' identifier
                then AList.update ''verifiedEmail'' (of_opt (get_value flds a ''email'' True)) ud
                else ud);
          fmt = of_opt (formatted_name flds a);
          ud = AList.update ''displayName'' (py_or fmt (of_opt pu))
                 (AList.update ''name'' (PDict (AList.update ''formatted'' fmt nm0)) ud);
          ud = (if truthy_opt (get_value flds a ''web'' False)
                then AList.update ''urls'' (PList [of_opt (get_value flds a ''web'' False)]) ud
                else ud)
      in AList.update ''birthday'' (of_opt (get_value flds a ''birthday'' False))
           (AList.update ''gender'' (of_opt (get_value flds a ''gender'' False)) ud))"

text \<open>What the final loop leaves of a value.\<close>

definition kept :: "pyval \<Rightarrow> pyval option" where
  "kept v = (if truthy v then Some v else None)"

text \<open>
  The rename table in the words of the specification: \<^verbatim>\<open>full_name\<close> becomes
  \<^verbatim>\<open>fullname\<close>, \<^verbatim>\<open>birthday\<close> becomes \<^verbatim>\<open>dob\<close>, \<^verbatim>\<open>postal_code\<close> becomes \<^verbatim>\<open>postcode\<close>, every
  other name is unchanged.
\<close>

definition spec_rename :: "string \<Rightarrow> string" where
  "spec_rename key =
     (if key = ''full_name'' then ''fullname''
      else if key = ''birthday'' then ''dob''
      else if key = ''postal_code'' then ''postcode''
      else key)"

text \<open>
  The display name in the words of the specification: the formatted full name is
  synthesized from the present name parts, the attribute \<^verbatim>\<open>full_name\<close> is used when no
  name part is present, and the display name is the formatted full name if that is
  non-empty and the preferred username otherwise.
\<close>

definition spec_formatted_name :: "string list \<Rightarrow> AttribAccess \<Rightarrow> string option" where
  "spec_formatted_name flds a =
     (let parts = present_vals flds a name_keys
      in if parts = [] then get_value flds a ''full_name'' False
         else Some (strip (join_space parts)))"

definition spec_displayName :: "string list \<Rightarrow> AttribAccess \<Rightarrow> string option \<Rightarrow> string option" where
  "spec_displayName flds a preferredUsername =
     (if truthy_opt (spec_formatted_name flds a) then spec_formatted_name flds a
      else preferredUsername)"

text \<open>The response of a handler that returned.\<close>

definition response_of :: "error + response \<times> 'a \<Rightarrow> response option" where
  "response_of r = (case r of Inl e \<Rightarrow> None | Inr (resp, rest) \<Rightarrow> Some resp)"

subsection \<open>A concrete scenario\<close>

text \<open>
  Inputs for the evaluations below: a responder that accepts the end points of
  \<^verbatim>\<open>https://app.example/\<close>; a library whose discovery fails for one identifier and
  succeeds otherwise, and whose completion reports a cancellation when the parameter
  \<^verbatim>\<open>openid.mode\<close> is \<^verbatim>\<open>cancel\<close> and a success for the identity
  \<^verbatim>\<open>https://example-provider/alice\<close> otherwise; the requests of one caller session; and
  the storage holding that session's attempt.
\<close>

definition ex_responder :: OpenIDResponder where
  "ex_responder =
     \<lparr>realm = ''https://app.example/'',
      endpoint_regex = starts_with ''https://app.example/''\<rparr>"

definition ex_attempt :: dict where
  "ex_attempt = [(''_openid_consumer_last_token'', PStr ''https://example-provider/alice'')]"

definition ex_cancel_info :: info where
  "ex_cancel_info =
     \<lparr>status = CANCEL, identity_url = [], canonicalID = None,
      sreg_response_of = None, ax_response_of = None, oauth_response_of = None\<rparr>"

definition ex_success_info :: info where
  "ex_success_info =
     \<lparr>status = SUCCESS, identity_url = ''https://example-provider/alice'', canonicalID = None,
      sreg_response_of = Some [''email'' \<mapsto> ''alice@example.com'', ''nickname'' \<mapsto> ''alice''],
      ax_response_of = None, oauth_response_of = None\<rparr>"

definition ex_library :: openid_library where
  "ex_library =
     \<lparr>consumer_begin = (\<lambda>url. if url = ''https://nowhere.invalid/'' then DiscoveryFailure
                             else AuthRequest \<lparr>shouldSendRedirect = True, extensions = []\<rparr> ex_attempt),
      redirectURL = (\<lambda>authrequest realm return_to. ''https://example-provider/auth''),
      htmlMarkup = (\<lambda>authrequest realm return_to. ''<form></form>''),
      consumer_complete = (\<lambda>openid_session params return_to.
         if map_of params ''openid.mode'' = Some ''cancel'' then ex_cancel_info
         else ex_success_info)\<rparr>"

definition ex_login_request :: "string \<Rightarrow> string \<Rightarrow> request" where
  "ex_login_request end_point openid_identifier =
     \<lparr>POST = [(''end_point'', end_point), (''openid_identifier'', openid_identifier)],
      params = [], session_id = ''session-1'', session = [],
      link_process = ''https://broker.example/process''\<rparr>"

definition ex_process_request :: "string \<Rightarrow> request" where
  "ex_process_request mode =
     \<lparr>POST = [], params = [(''openid.mode'', mode)], session_id = ''session-1'',
      session = [(''end_point'', ''https://app.example/cb'')],
      link_process = ''https://broker.example/process''\<rparr>"

definition ex_empty_world :: world where
  "ex_empty_world = \<lparr>storage = [], calls = []\<rparr>"

definition ex_pending_world :: world where
  "ex_pending_world = \<lparr>storage = [(''session-1'', ex_attempt)], calls = []\<rparr>"

section \<open>Lemmas about the model\<close>

lemma bind_err_simps [simp]:
  "bind_err (Inl e) f = Inl e"
  "bind_err (Inr v) f = f v"
  by (simp_all add: bind_err_def)

lemma map_of_fold_delete:
  "map_of (fold (\<lambda>(k, v) d. if \<not> truthy v then AList.delete k d else d) xs d) k =
     (if \<exists>v. (k, v) \<in> set xs \<and> \<not> truthy v then None else map_of d k)"
proof (induction xs arbitrary: d)
  case Nil
  show ?case by simp
next
  case (Cons x xs)
  obtain k0 v0 where x: "x = (k0, v0)" by (cases x)
  show ?case
  proof (cases "truthy v0")
    case True
    then show ?thesis
      using Cons.IH [of d] by (simp add: x) blast
  next
    case False
    then show ?thesis
      using Cons.IH [of "AList.delete k0 d"] by (simp add: x AList.delete_conv') blast?
  qed
qed

lemma map_of_strip_empty:
  assumes "distinct (map fst ud)"
  shows "map_of (strip_empty ud) k =
           (case map_of ud k of None \<Rightarrow> None | Some v \<Rightarrow> if truthy v then Some v else None)"
proof (cases "map_of ud k")
  case None
  then have "\<And>v. (k, v) \<notin> set ud"
    by (metis map_of_eq_None_iff fst_conv image_eqI)
  then show ?thesis
    using None by (simp add: strip_empty_def map_of_fold_delete)
next
  case (Some v)
  have 1: "\<And>v'. (k, v') \<in> set ud \<Longrightarrow> v' = v"
    using assms Some by (metis map_of_eq_Some_iff option.inject)
  have 2: "(k, v) \<in> set ud"
    using Some by (rule map_of_SomeD)
  have "(\<exists>v'. (k, v') \<in> set ud \<and> \<not> truthy v') \<longleftrightarrow> \<not> truthy v"
    using 1 2 by blast
  then show ?thesis
    using Some by (simp add: strip_empty_def map_of_fold_delete)
qed


lemma get_get_value:
  "map_of ax_attributes key = Some uri \<Longrightarrow> AttribAccess_get flds a key b = Inr (get_value flds a key b)"
  by (simp add: get_value_def AttribAccess_get_def Let_def)

lemma uri_of:
  "map_of ax_attributes ''email'' = Some ''http://axschema.org/contact/email''"
  "map_of ax_attributes ''nickname'' = Some ''http://axschema.org/namePerson/friendly''"
  "map_of ax_attributes ''full_name'' = Some ''http://axschema.org/namePerson''"
  "map_of ax_attributes ''web'' = Some ''http://axschema.org/contact/web/default''"
  "map_of ax_attributes ''gender'' = Some ''http://axschema.org/person/gender''"
  "map_of ax_attributes ''birthday'' = Some ''http://axschema.org/birthDate''"
  "map_of ax_attributes ''name_prefix'' = Some ''http://axschema.org/namePerson/prefix''"
  "map_of ax_attributes ''first_name'' = Some ''http://axschema.org/namePerson/first''"
  "map_of ax_attributes ''middle_name'' = Some ''http://axschema.org/namePerson/middle''"
  "map_of ax_attributes ''last_name'' = Some ''http://axschema.org/namePerson/last''"
  "map_of ax_attributes ''name_suffix'' = Some ''http://axschema.org/namePerson/suffix''"
  by (simp_all add: ax_attributes_def)

lemmas get_known [simp] = uri_of [THEN get_get_value]


lemma name_loop_vals:
  "set parts \<subseteq> set name_keys \<Longrightarrow>
   \<exists>name'. name_loop flds a parts (vals, name) = Inr (vals @ present_vals flds a parts, name')"
proof (induction parts arbitrary: vals name)
  case Nil
  show ?case by (simp add: present_vals_def)
next
  case (Cons p ps)
  from Cons.prems have p: "p \<in> set name_keys" and ps: "set ps \<subseteq> set name_keys"
    by simp_all
  from p have g: "AttribAccess_get flds a p False = Inr (get_value flds a p False)"
    by (auto simp: name_keys_def)
  from p obtain pk where pk: "map_of pcard_map p = Some pk"
    by (auto simp: name_keys_def pcard_map_def)
  show ?case
  proof (cases "get_value flds a p False")
    case None
    with Cons.IH [OF ps, of vals name] g show ?thesis
      by (simp add: present_vals_def)
  next
    case (Some s)
    show ?thesis
    proof (cases "s = []")
      case True
      with Cons.IH [OF ps, of vals name] g Some show ?thesis
        by (simp add: present_vals_def)
    next
      case False
      with Cons.IH [OF ps, of "vals @ [s]" "AList.update pk (PStr s) name"] g Some pk
      show ?thesis
        by (simp add: present_vals_def)
    qed
  qed
qed


lemma extract_normal:
  assumes nl: "name_loop flds (AttribAccess_init sreg ax) name_keys ([], []) =
                 Inr (present_vals flds (AttribAccess_init sreg ax) name_keys, nm0)"
  shows "extract_openid_data flds identifier sreg ax =
           (case preferred flds (AttribAccess_init sreg ax) identifier of
              Inl e \<Rightarrow> Inl e
            | Inr pu \<Rightarrow> Inr (strip_empty (final_ud flds (AttribAccess_init sreg ax) identifier pu nm0)))"
proof -
  consider (G) "contains ''google.com'' identifier"
    | (Y) "\<not> contains ''google.com'' identifier" "contains ''yahoo.com'' identifier"
    | (O) "\<not> contains ''google.com'' identifier" "\<not> contains ''yahoo.com'' identifier"
    by blast
  then show ?thesis
  proof cases
    case G
    show ?thesis
      unfolding extract_openid_data_def Let_def
      by (simp add: G dict_item_def AList.update_conv' nl dict_get_def final_ud_def
            preferred_def provider_name_def formatted_name_def Let_def split: option.splits)
  next
    case Y
    show ?thesis
      unfolding extract_openid_data_def Let_def
      by (simp add: Y dict_item_def AList.update_conv' nl dict_get_def final_ud_def
            preferred_def provider_name_def formatted_name_def Let_def split: option.splits)
  next
    case O
    show ?thesis
      unfolding extract_openid_data_def Let_def
      by (simp add: O dict_item_def AList.update_conv' nl dict_get_def final_ud_def
            preferred_def provider_name_def formatted_name_def Let_def split: option.splits)
  qed
qed

lemma distinct_final_ud: "distinct (map fst (final_ud flds a identifier pu nm0))"
  by (simp add: final_ud_def Let_def AList.distinct_update)

lemma lookup_stripped:
  "map_of (strip_empty (final_ud flds a identifier pu nm0)) k =
     (case map_of (final_ud flds a identifier pu nm0) k of None \<Rightarrow> None | Some v \<Rightarrow> kept v)"
  by (simp add: map_of_strip_empty distinct_final_ud kept_def cong: option.case_cong)

lemma final_ud_providerName:
  "map_of (final_ud flds a identifier pu nm0) ''providerName'' = Some (PStr (provider_name identifier))"
  by (simp add: final_ud_def Let_def AList.update_conv')

lemma final_ud_preferredUsername:
  "map_of (final_ud flds a identifier pu nm0) ''preferredUsername'' = Some (of_opt pu)"
  by (simp add: final_ud_def Let_def AList.update_conv')


lemma final_ud_displayName:
  "map_of (final_ud flds a identifier pu nm0) ''displayName'' =
     Some (py_or (of_opt (formatted_name flds a)) (of_opt pu))"
  by (simp add: final_ud_def Let_def AList.update_conv')

lemma final_ud_name:
  "map_of (final_ud flds a identifier pu nm0) ''name'' =
     Some (PDict (AList.update ''formatted'' (of_opt (formatted_name flds a)) nm0))"
  by (simp add: final_ud_def Let_def AList.update_conv')

lemma extract_preferred:
  "\<exists>nm0. extract_openid_data flds identifier sreg ax =
     (case preferred flds (AttribAccess_init sreg ax) identifier of
        Inl e \<Rightarrow> Inl e
      | Inr pu \<Rightarrow>
          Inr (strip_empty (final_ud flds (AttribAccess_init sreg ax) identifier pu nm0)))"
proof -
  obtain nm0 where nl:
    "name_loop flds (AttribAccess_init sreg ax) name_keys ([], []) =
       Inr (present_vals flds (AttribAccess_init sreg ax) name_keys, nm0)"
    using name_loop_vals [of name_keys flds "AttribAccess_init sreg ax" "[]" "[]"] by auto
  show ?thesis
    using extract_normal [OF nl] by blast
qed

lemma extract_Inr:
  assumes "extract_openid_data flds identifier sreg ax = Inr ud"
  shows "\<exists>pu nm0. preferred flds (AttribAccess_init sreg ax) identifier = Inr pu \<and>
           ud = strip_empty (final_ud flds (AttribAccess_init sreg ax) identifier pu nm0)"
proof -
  obtain nm0 where n: "extract_openid_data flds identifier sreg ax =
     (case preferred flds (AttribAccess_init sreg ax) identifier of
        Inl e \<Rightarrow> Inl e
      | Inr pu \<Rightarrow>
          Inr (strip_empty (final_ud flds (AttribAccess_init sreg ax) identifier pu nm0)))"
    using extract_preferred by blast
  show ?thesis
  proof (cases "preferred flds (AttribAccess_init sreg ax) identifier")
    case (Inl e)
    with n assms show ?thesis by simp
  next
    case (Inr pu)
    with n assms show ?thesis by auto
  qed
qed

lemma trans_dict_rename:
  "(case map_of trans_dict key of Some k \<Rightarrow> k | None \<Rightarrow> key) = spec_rename key"
  by (simp add: trans_dict_def spec_rename_def)


lemma extract_non_google_returns:
  assumes "\<not> contains ''google.com'' identifier"
  shows "\<exists>ud. extract_openid_data flds identifier sreg ax = Inr ud"
proof -
  from assms have "preferred flds (AttribAccess_init sreg ax) identifier =
      Inr (get_value flds (AttribAccess_init sreg ax) ''nickname'' False)"
    by (simp add: preferred_def)
  moreover obtain nm0 where "extract_openid_data flds identifier sreg ax =
     (case preferred flds (AttribAccess_init sreg ax) identifier of
        Inl e \<Rightarrow> Inl e
      | Inr pu \<Rightarrow>
          Inr (strip_empty (final_ud flds (AttribAccess_init sreg ax) identifier pu nm0)))"
    using extract_preferred by blast
  ultimately show ?thesis
    by simp
qed

lemma extract_top_level_nonempty:
  assumes "extract_openid_data flds identifier sreg ax = Inr ud" and "map_of ud k = Some v"
  shows "truthy v"
proof -
  from extract_Inr [OF assms(1)] obtain pu nm0 where
    "ud = strip_empty (final_ud flds (AttribAccess_init sreg ax) identifier pu nm0)"
    by blast
  with assms(2) show ?thesis
    by (auto simp: lookup_stripped kept_def split: option.splits if_splits)
qed

subsection \<open>The handlers\<close>

lemma response_of_Inr [simp]: "response_of (Inr (resp, rest)) = Some resp"
  by (simp add: response_of_def)

lemma login_invalid:
  assumes "map_of (POST req) ''end_point'' = Some ep" and "\<not> endpoint_regex self ep"
  shows "login self lib req w = Inr (error_redirect 0 ep, session req, w)"
  using assms by (simp add: login_def Let_def)

lemma login_discovery_failure:
  assumes "map_of (POST req) ''end_point'' = Some ep"
    and "map_of (POST req) ''openid_identifier'' = Some url" and "url \<noteq> []"
    and "endpoint_regex self ep"
    and "consumer_begin lib (lookup_identifier req url) = DiscoveryFailure"
  shows "login self lib req w = Inr (error_redirect 1 ep, session req, w)"
  using assms by (simp add: login_def Let_def)

lemma process_missing:
  assumes "map_of (session req) ''end_point'' = Some ep"
    and "\<not> truthy_stored (map_of (storage w) (session_id req))"
  shows "process flds lib req token w =
           Inr (error_redirect 1 ep, w\<lparr>calls := calls w @ [Retrieve (session_id req)]\<rparr>)"
  using assms by (simp add: process_def storage_retrieve_def Let_def)

lemma process_failure:
  assumes "map_of (session req) ''end_point'' = Some ep"
    and "map_of (storage w) (session_id req) = Some s" and "s \<noteq> []"
    and "status (consumer_complete lib s (params req) (link_process req)) \<in> {FAILURE, CANCEL}"
  shows "process flds lib req token w =
           Inr (error_redirect 2 ep, w\<lparr>calls := calls w @ [Retrieve (session_id req)]\<rparr>)"
  using assms by (auto simp add: process_def storage_retrieve_def Let_def)

lemma process_success:
  assumes "map_of (session req) ''end_point'' = Some ep"
    and "map_of (storage w) (session_id req) = Some s" and "s \<noteq> []"
    and "status (consumer_complete lib s (params req) (link_process req)) = SUCCESS"
    and "process flds lib req token w = Inr (resp, w')"
  shows "resp = FormResponse ep token \<and>
         calls w' = calls w @ [Retrieve (session_id req), Delete (session_id req), Store token] \<and>
         (\<exists>result_data.
            storage w' = AList.update token result_data (AList.delete (session_id req) (storage w)))"
proof -
  let ?info = "consumer_complete lib s (params req) (link_process req)"
  let ?identity = "if truthy_opt (canonicalID ?info) then the (canonicalID ?info) else identity_url ?info"
  show ?thesis
  proof (cases "extract_openid_data flds ?identity (sreg_response_of ?info) (ax_response_of ?info)")
    case (Inl e)
    with assms show ?thesis
      by (simp add: process_def storage_retrieve_def Let_def)
  next
    case (Inr user_data)
    with assms show ?thesis
      by (auto simp add: process_def storage_retrieve_def storage_delete_def storage_store_def
            Let_def)
  qed
qed

lemma process_again_after_success:
  assumes "map_of (session req) ''end_point'' = Some ep"
    and "map_of (storage w) (session_id req) = Some s" and "s \<noteq> []"
    and "status (consumer_complete lib s (params req) (link_process req)) = SUCCESS"
    and "process flds lib req token w = Inr (resp, w')"
    and "token \<noteq> session_id req"
    and "session_id req' = session_id req" and "map_of (session req') ''end_point'' = Some ep'"
  shows "response_of (process flds lib' req' token' w') = Some (ErrorRedirect 1 ep')"
proof -
  from process_success [OF assms(1-5)] obtain result_data where
    "storage w' = AList.update token result_data (AList.delete (session_id req) (storage w))"
    by blast
  with assms(6,7) have "map_of (storage w') (session_id req') = None"
    by (simp add: AList.update_conv' AList.delete_conv')
  then have "\<not> truthy_stored (map_of (storage w') (session_id req'))"
    by simp
  from process_missing [OF assms(8) this] show ?thesis
    by (simp add: error_redirect_def)
qed

section \<open>The claims\<close>

subsection \<open>The attempt record\<close>

text \<open>
  Claim C1. The claim says that \<^verbatim>\<open>process\<close> deletes the attempt record on the success
  and on the failure path, so that a second \<^verbatim>\<open>process\<close> call for the same session fails
  as a missing attempt. The handler calls \<^verbatim>\<open>self.storage.delete\<close> on the success path
  only; the failure paths return before it. In the scenario, a cancelled handshake is
  answered with the error code 2 and leaves the attempt in the storage, and a second
  call for the same session, now with a successful handshake, finds the attempt and
  stores a result under a new token. (After a success the attempt is gone and a second
  call fails as a missing attempt, see \<open>process_again_after_success\<close>.)
\<close>

theorem process_after_failure_mints_token:
  "process sreg_data_fields ex_library (ex_process_request ''cancel'') ''token-1'' ex_pending_world =
     Inr (ErrorRedirect 2 ''https://app.example/cb'',
          \<lparr>storage = [(''session-1'', ex_attempt)], calls = [Retrieve ''session-1'']\<rparr>) \<and>
   process sreg_data_fields ex_library (ex_process_request ''id_res'') ''token-2''
     \<lparr>storage = [(''session-1'', ex_attempt)], calls = [Retrieve ''session-1'']\<rparr> =
     Inr (FormResponse ''https://app.example/cb'' ''token-2'',
          \<lparr>storage =
             [(''token-2'',
               [(''status'', PStr ''ok''),
                (''profile'',
                 PDict
                  [(''identifier'', PStr ''https://example-provider/alice''),
                   (''providerName'', PStr ''OpenID''),
                   (''preferredUsername'', PStr ''alice''),
                   (''name'', PDict [(''formatted'', PNone)]),
                   (''displayName'', PStr ''alice'')])])],
           calls = [Retrieve ''session-1'', Retrieve ''session-1'', Delete ''session-1'',
                    Store ''token-2'']\<rparr>)"
  by code_simp

subsection \<open>The attribute normalizer\<close>

text \<open>
  Claim C2. The claim says that \<^verbatim>\<open>extract_openid_data\<close> raises no error, also for an
  identifier containing \<^verbatim>\<open>google.com\<close> when neither response carries an email. For such
  an identifier the code passes the email to \<^verbatim>\<open>re.match\<close> without a check: with no
  email at all the call raises \<^verbatim>\<open>TypeError\<close>. (For every identifier that does not
  contain \<^verbatim>\<open>google.com\<close> the function returns, see \<open>extract_non_google_returns\<close>.)
\<close>

theorem extract_google_without_email_raises:
  "extract_openid_data sreg_data_fields
     ''https://www.google.com/accounts/o8/id?id=AItOawk'' None None = Inl TypeError"
  by code_simp

text \<open>
  Claim C3. The claim says that every key of the returned profile has a non-empty,
  non-null value at every nesting depth, the key \<^verbatim>\<open>formatted\<close> of the dictionary
  \<^verbatim>\<open>name\<close> included. The final loop removes the empty values of the top level only, and
  \<^verbatim>\<open>name['formatted']\<close> is set without a check: with no name attribute at all the
  profile holds \<^verbatim>\<open>'name': {'formatted': None}\<close>. (The values of the top level are
  non-empty for every input, see \<open>extract_top_level_nonempty\<close>.)
\<close>

theorem extract_emits_null_formatted_name:
  "extract_openid_data sreg_data_fields ''https://example.org/alice'' None None =
     Inr [(''identifier'', PStr ''https://example.org/alice''),
          (''providerName'', PStr ''OpenID''),
          (''name'', PDict [(''formatted'', PNone)])]"
  by code_simp

subsection \<open>Error codes\<close>

text \<open>
  Claim C4, as stated, fails: the claim says that errors of two different categories
  carry different codes, but a discovery failure at \<^verbatim>\<open>login\<close> and a missing attempt
  record at \<^verbatim>\<open>process\<close> are both redirected with the code 1.
\<close>

theorem error_codes_counterexample:
  "response_of (login ex_responder ex_library
      (ex_login_request ''https://app.example/cb'' ''https://nowhere.invalid/'') ex_empty_world) =
     Some (ErrorRedirect 1 ''https://app.example/cb'') \<and>
   response_of (process sreg_data_fields ex_library (ex_process_request ''id_res'') ''token-1''
      ex_empty_world) =
     Some (ErrorRedirect 1 ''https://app.example/cb'')"
  by code_simp

text \<open>
  Claim C4, amended. Each of the four categories is redirected to the caller's end point
  with a numeric code: 0 for a disallowed callback URL at \<^verbatim>\<open>login\<close>, 1 for a discovery
  failure at \<^verbatim>\<open>login\<close>, 2 for a handshake failure or cancellation at \<^verbatim>\<open>process\<close>, and 1
  for a missing attempt record at \<^verbatim>\<open>process\<close>. The codes tell a disallowed callback URL
  and a handshake failure from each other and from the other two categories; a
  discovery failure and a missing attempt record carry the same code.
\<close>

theorem error_codes:
  "(map_of (POST req) ''end_point'' = Some ep \<and> \<not> endpoint_regex self ep \<longrightarrow>
      response_of (login self lib req w) = Some (ErrorRedirect 0 ep)) \<and>
   (map_of (POST req) ''end_point'' = Some ep \<and>
    map_of (POST req) ''openid_identifier'' = Some url \<and> url \<noteq> [] \<and>
    endpoint_regex self ep \<and>
    consumer_begin lib (lookup_identifier req url) = DiscoveryFailure \<longrightarrow>
      response_of (login self lib req w) = Some (ErrorRedirect 1 ep)) \<and>
   (map_of (session req) ''end_point'' = Some ep \<and>
    map_of (storage w) (session_id req) = Some s \<and> s \<noteq> [] \<and>
    status (consumer_complete lib s (params req) (link_process req)) \<in> {FAILURE, CANCEL} \<longrightarrow>
      response_of (process flds lib req token w) = Some (ErrorRedirect 2 ep)) \<and>
   (map_of (session req) ''end_point'' = Some ep \<and>
    \<not> truthy_stored (map_of (storage w) (session_id req)) \<longrightarrow>
      response_of (process flds lib req token w) = Some (ErrorRedirect 1 ep))"
  by (simp add: login_invalid login_discovery_failure process_failure process_missing
        error_redirect_def)

theorem error_codes_witness:
  "(\<not> endpoint_regex ex_responder ''https://evil.example/cb'' \<and>
    response_of (login ex_responder ex_library
       (ex_login_request ''https://evil.example/cb'' ''https://example-provider/alice'')
       ex_empty_world) = Some (ErrorRedirect 0 ''https://evil.example/cb'')) \<and>
   (endpoint_regex ex_responder ''https://app.example/cb'' \<and>
    consumer_begin ex_library ''https://nowhere.invalid/'' = DiscoveryFailure \<and>
    response_of (login ex_responder ex_library
       (ex_login_request ''https://app.example/cb'' ''https://nowhere.invalid/'')
       ex_empty_world) = Some (ErrorRedirect 1 ''https://app.example/cb'')) \<and>
   (map_of (storage ex_pending_world) ''session-1'' = Some ex_attempt \<and>
    status (consumer_complete ex_library ex_attempt [(''openid.mode'', ''cancel'')]
              ''https://broker.example/process'') = CANCEL \<and>
    response_of (process sreg_data_fields ex_library (ex_process_request ''cancel'') ''token-1''
       ex_pending_world) = Some (ErrorRedirect 2 ''https://app.example/cb'')) \<and>
   (map_of (storage ex_empty_world) ''session-1'' = None \<and>
    response_of (process sreg_data_fields ex_library (ex_process_request ''id_res'') ''token-1''
       ex_empty_world) = Some (ErrorRedirect 1 ''https://app.example/cb''))"
  using
    error_codes [where req = "ex_login_request ''https://evil.example/cb'' ''https://example-provider/alice''"
      and ep = "''https://evil.example/cb''" and self = ex_responder and lib = ex_library
      and w = ex_empty_world]
    error_codes [where req = "ex_login_request ''https://app.example/cb'' ''https://nowhere.invalid/''"
      and ep = "''https://app.example/cb''" and self = ex_responder and lib = ex_library
      and w = ex_empty_world and url = "''https://nowhere.invalid/''"]
    error_codes [where req = "ex_process_request ''cancel''"
      and ep = "''https://app.example/cb''" and lib = ex_library and w = ex_pending_world
      and s = ex_attempt and flds = sreg_data_fields and token = "''token-1''"]
    error_codes [where req = "ex_process_request ''id_res''"
      and ep = "''https://app.example/cb''" and lib = ex_library and w = ex_empty_world
      and flds = sreg_data_fields and token = "''token-1''"]
  by (simp add: ex_login_request_def ex_process_request_def ex_responder_def ex_library_def
        ex_empty_world_def ex_pending_world_def ex_attempt_def ex_cancel_info_def
        lookup_identifier_def)

subsection \<open>Attribute lookup\<close>

text \<open>
  Claim C5. For every logical field \<open>key\<close> (a key of \<^verbatim>\<open>ax_attributes\<close>, with the type URI
  \<open>uri\<close>): when the attribute-exchange response holds a non-empty value for it,
  \<^verbatim>\<open>AttribAccess.get\<close> returns that value, whatever the simple-registration response
  holds; when it holds none and the field is exchange-only, the result is \<^verbatim>\<open>None\<close>. In
  both cases the result is the same for every simple-registration response: that
  response matters only when the exchange value is absent or empty and the field is
  not exchange-only.
\<close>

theorem ax_precedence:
  assumes "map_of ax_attributes key = Some uri"
  shows "(truthy_opt (ax_resp a uri) \<longrightarrow>
            AttribAccess_get flds a key ax_only = Inr (ax_resp a uri)) \<and>
         (\<not> truthy_opt (ax_resp a uri) \<and> ax_only \<longrightarrow>
            AttribAccess_get flds a key ax_only = Inr None) \<and>
         (truthy_opt (ax_resp a uri) \<or> ax_only \<longrightarrow>
            AttribAccess_get flds (a\<lparr>sreg_resp := sreg'\<rparr>) key ax_only =
            AttribAccess_get flds a key ax_only)"
  using assms by (simp add: AttribAccess_get_def Let_def)

theorem ax_precedence_witness:
  "map_of ax_attributes ''email'' = Some ''http://axschema.org/contact/email'' \<and>
   truthy_opt (ax_resp
     \<lparr>sreg_resp = [''email'' \<mapsto> ''sreg@example.com''],
      ax_resp = [''http://axschema.org/contact/email'' \<mapsto> ''ax@example.com'']\<rparr>
     ''http://axschema.org/contact/email'') \<and>
   AttribAccess_get sreg_data_fields
     \<lparr>sreg_resp = [''email'' \<mapsto> ''sreg@example.com''],
      ax_resp = [''http://axschema.org/contact/email'' \<mapsto> ''ax@example.com'']\<rparr>
     ''email'' False = Inr (Some ''ax@example.com'') \<and>
   AttribAccess_get sreg_data_fields
     \<lparr>sreg_resp = Map.empty,
      ax_resp = [''http://axschema.org/contact/email'' \<mapsto> ''ax@example.com'']\<rparr>
     ''email'' False = Inr (Some ''ax@example.com'') \<and>
   \<not> truthy_opt (ax_resp
     \<lparr>sreg_resp = [''email'' \<mapsto> ''sreg@example.com''], ax_resp = Map.empty\<rparr>
     ''http://axschema.org/contact/email'') \<and>
   AttribAccess_get sreg_data_fields
     \<lparr>sreg_resp = [''email'' \<mapsto> ''sreg@example.com''], ax_resp = Map.empty\<rparr>
     ''email'' True = Inr None"
proof -
  have u: "map_of ax_attributes ''email'' = Some ''http://axschema.org/contact/email''"
    by (simp add: ax_attributes_def)
  show ?thesis
    using u
      ax_precedence [OF u, where
        a = "\<lparr>sreg_resp = [''email'' \<mapsto> ''sreg@example.com''],
              ax_resp = [''http://axschema.org/contact/email'' \<mapsto> ''ax@example.com'']\<rparr>"
        and flds = sreg_data_fields and ax_only = False and sreg' = Map.empty]
      ax_precedence [OF u, where
        a = "\<lparr>sreg_resp = [''email'' \<mapsto> ''sreg@example.com''], ax_resp = Map.empty\<rparr>"
        and flds = sreg_data_fields and ax_only = True and sreg' = Map.empty]
    by simp
qed

subsection \<open>Provider inference\<close>



subsection \<open>Failures at login\<close>



subsection \<open>The simple-registration fallback\<close>

text \<open>
  Claim C8. For every logical field \<open>key\<close> whose attribute-exchange value is absent (or
  empty) and that is not exchange-only, \<^verbatim>\<open>AttribAccess.get\<close> translates the name through
  the rename table (\<^verbatim>\<open>full_name\<close> to \<^verbatim>\<open>fullname\<close>, \<^verbatim>\<open>birthday\<close> to \<^verbatim>\<open>dob\<close>,
  \<^verbatim>\<open>postal_code\<close> to \<^verbatim>\<open>postcode\<close>, every other name unchanged) and returns the value of
  the registration response under the translated name if that name is one of the
  recognised registration field names, and \<^verbatim>\<open>None\<close> otherwise.
\<close>

theorem sreg_fallback:
  assumes "map_of ax_attributes key = Some uri" and "\<not> truthy_opt (ax_resp a uri)"
  shows "AttribAccess_get flds a key False =
           Inr (if spec_rename key \<in> set flds then sreg_resp a (spec_rename key) else None)"
  using assms by (simp add: AttribAccess_get_def Let_def trans_dict_rename)

theorem sreg_fallback_witness:
  "map_of ax_attributes ''full_name'' = Some ''http://axschema.org/namePerson'' \<and>
   \<not> truthy_opt (ax_resp \<lparr>sreg_resp = [''fullname'' \<mapsto> ''Alice Example''], ax_resp = Map.empty\<rparr>
        ''http://axschema.org/namePerson'') \<and>
   AttribAccess_get sreg_data_fields
     \<lparr>sreg_resp = [''fullname'' \<mapsto> ''Alice Example''], ax_resp = Map.empty\<rparr>
     ''full_name'' False = Inr (Some ''Alice Example'')"
proof -
  have u: "map_of ax_attributes ''full_name'' = Some ''http://axschema.org/namePerson''"
    by (simp add: ax_attributes_def)
  have e: "\<not> truthy_opt (ax_resp \<lparr>sreg_resp = [''fullname'' \<mapsto> ''Alice Example''], ax_resp = Map.empty\<rparr>
        ''http://axschema.org/namePerson'')"
    by simp
  show ?thesis
    using u e sreg_fallback [OF u e, of sreg_data_fields]
    by (simp add: spec_rename_def sreg_data_fields_def)
qed

subsection \<open>The display name\<close>

text \<open>
  Claim C9, as stated, fails. The claim takes the attribute \<^verbatim>\<open>full_name\<close> only when no
  name part is present. The code takes it whenever the joined name parts are empty
  after \<^verbatim>\<open>strip()\<close>, which is also the case when the name parts that are present hold
  white space only. With the first name \<^verbatim>\<open>' '\<close>, the full name \<^verbatim>\<open>Bob\<close> and the nickname
  \<^verbatim>\<open>bob1\<close> the code returns the display name \<^verbatim>\<open>Bob\<close>, where the claim gives the
  preferred username \<^verbatim>\<open>bob1\<close> (or the joined name \<^verbatim>\<open>' '\<close>, if it is read without the
  \<^verbatim>\<open>strip()\<close>).
\<close>

theorem displayName_counterexample:
  "extract_openid_data sreg_data_fields ''https://example.org/bob'' None
      (Some [''http://axschema.org/namePerson/first'' \<mapsto> '' '',
             ''http://axschema.org/namePerson'' \<mapsto> ''Bob'',
             ''http://axschema.org/namePerson/friendly'' \<mapsto> ''bob1'']) =
     Inr [(''identifier'', PStr ''https://example.org/bob''),
          (''providerName'', PStr ''OpenID''),
          (''preferredUsername'', PStr ''bob1''),
          (''name'', PDict [(''givenName'', PStr '' ''), (''formatted'', PStr ''Bob'')]),
          (''displayName'', PStr ''Bob'')] \<and>
   spec_displayName sreg_data_fields
      (AttribAccess_init None
        (Some [''http://axschema.org/namePerson/first'' \<mapsto> '' '',
               ''http://axschema.org/namePerson'' \<mapsto> ''Bob'',
               ''http://axschema.org/namePerson/friendly'' \<mapsto> ''bob1'']))
      (Some ''bob1'') = Some ''bob1''"
  by code_simp

text \<open>
  Claim C9, amended. In every profile \<^verbatim>\<open>extract_openid_data\<close> returns, the display name
  is the formatted full name if that is non-empty, and otherwise it is the preferred
  username (absent when the preferred username is absent or empty). The formatted full
  name is the present name parts joined by spaces and stripped of surrounding white
  space, or, when that string is empty, the attribute \<^verbatim>\<open>full_name\<close>; it is the value
  stored under \<^verbatim>\<open>formatted\<close> in the dictionary \<^verbatim>\<open>name\<close>. In particular, given only a
  preferred username, the display name is the preferred username.
\<close>

theorem displayName_derivation:
  assumes "extract_openid_data flds identifier sreg ax = Inr ud"
  shows "map_of ud ''displayName'' =
           (if truthy_opt (formatted_name flds (AttribAccess_init sreg ax))
            then Some (of_opt (formatted_name flds (AttribAccess_init sreg ax)))
            else map_of ud ''preferredUsername'') \<and>
         (\<exists>name. map_of ud ''name'' = Some (PDict name) \<and>
            map_of name ''formatted'' =
              Some (of_opt (formatted_name flds (AttribAccess_init sreg ax)))) \<and>
         (present_vals flds (AttribAccess_init sreg ax) name_keys = [] \<and>
          \<not> truthy_opt (get_value flds (AttribAccess_init sreg ax) ''full_name'' False) \<longrightarrow>
            map_of ud ''displayName'' = map_of ud ''preferredUsername'')"
proof -
  from extract_Inr [OF assms] obtain pu nm0 where
    ud: "ud = strip_empty (final_ud flds (AttribAccess_init sreg ax) identifier pu nm0)"
    by blast
  have 1: "map_of ud ''displayName'' =
           (if truthy_opt (formatted_name flds (AttribAccess_init sreg ax))
            then Some (of_opt (formatted_name flds (AttribAccess_init sreg ax)))
            else map_of ud ''preferredUsername'')"
    by (cases "formatted_name flds (AttribAccess_init sreg ax)")
      (simp_all add: ud lookup_stripped final_ud_displayName final_ud_preferredUsername
        kept_def py_or_def)
  have 2: "map_of ud ''name'' =
      Some (PDict (AList.update ''formatted''
        (of_opt (formatted_name flds (AttribAccess_init sreg ax))) nm0))"
    by (simp add: ud lookup_stripped final_ud_name kept_def)
  have 3: "map_of (AList.update ''formatted''
        (of_opt (formatted_name flds (AttribAccess_init sreg ax))) nm0) ''formatted'' =
      Some (of_opt (formatted_name flds (AttribAccess_init sreg ax)))"
    by (simp add: AList.update_conv')
  have 4: "present_vals flds (AttribAccess_init sreg ax) name_keys = [] \<and>
          \<not> truthy_opt (get_value flds (AttribAccess_init sreg ax) ''full_name'' False) \<longrightarrow>
            \<not> truthy_opt (formatted_name flds (AttribAccess_init sreg ax))"
    by (simp add: formatted_name_def strip_def)
  from 1 2 3 4 show ?thesis
    by auto
qed

theorem displayName_derivation_witness:
  "extract_openid_data sreg_data_fields ''https://example-provider/alice''
      (Some [''email'' \<mapsto> ''alice@example.com'', ''nickname'' \<mapsto> ''alice'']) None =
     Inr [(''identifier'', PStr ''https://example-provider/alice''),
          (''providerName'', PStr ''OpenID''),
          (''preferredUsername'', PStr ''alice''),
          (''name'', PDict [(''formatted'', PNone)]),
          (''displayName'', PStr ''alice'')] \<and>
   present_vals sreg_data_fields
      (AttribAccess_init (Some [''email'' \<mapsto> ''alice@example.com'', ''nickname'' \<mapsto> ''alice'']) None)
      name_keys = [] \<and>
   \<not> truthy_opt (get_value sreg_data_fields
      (AttribAccess_init (Some [''email'' \<mapsto> ''alice@example.com'', ''nickname'' \<mapsto> ''alice'']) None)
      ''full_name'' False) \<and>
   map_of [(''identifier'', PStr ''https://example-provider/alice''),
          (''providerName'', PStr ''OpenID''),
          (''preferredUsername'', PStr ''alice''),
          (''name'', PDict [(''formatted'', PNone)]),
          (''displayName'', PStr ''alice'')] ''preferredUsername'' = Some (PStr ''alice'') \<and>
   map_of [(''identifier'', PStr ''https://example-provider/alice''),
          (''providerName'', PStr ''OpenID''),
          (''preferredUsername'', PStr ''alice''),
          (''name'', PDict [(''formatted'', PNone)]),
          (''displayName'', PStr ''alice'')] ''displayName'' = Some (PStr ''alice'')"
proof -
  have h: "extract_openid_data sreg_data_fields ''https://example-provider/alice''
      (Some [''email'' \<mapsto> ''alice@example.com'', ''nickname'' \<mapsto> ''alice'']) None =
     Inr [(''identifier'', PStr ''https://example-provider/alice''),
          (''providerName'', PStr ''OpenID''),
          (''preferredUsername'', PStr ''alice''),
          (''name'', PDict [(''formatted'', PNone)]),
          (''displayName'', PStr ''alice'')]"
    by code_simp
  have p: "present_vals sreg_data_fields
      (AttribAccess_init (Some [''email'' \<mapsto> ''alice@example.com'', ''nickname'' \<mapsto> ''alice'']) None)
      name_keys = []"
    by code_simp
  have f: "\<not> truthy_opt (get_value sreg_data_fields
      (AttribAccess_init (Some [''email'' \<mapsto> ''alice@example.com'', ''nickname'' \<mapsto> ''alice'']) None)
      ''full_name'' False)"
    by code_simp
  show ?thesis
    using h p f displayName_derivation [OF h] by simp
qed

subsection \<open>The provider name\<close>

text \<open>
  Claim C10. Whenever \<^verbatim>\<open>extract_openid_data\<close> returns a profile, the profile contains the
  key \<^verbatim>\<open>providerName\<close>, and its value is one of the three strings \<^verbatim>\<open>Google\<close>,
  \<^verbatim>\<open>Yahoo\<close> and \<^verbatim>\<open>OpenID\<close>: the final loop never removes it.
\<close>

theorem providerName_always_present:
  assumes "extract_openid_data flds identifier sreg ax = Inr ud"
  shows "map_of ud ''providerName'' \<in>
     {Some (PStr ''Google''), Some (PStr ''Yahoo''), Some (PStr ''OpenID'')}"
proof -
  from extract_Inr [OF assms] obtain pu nm0 where
    "ud = strip_empty (final_ud flds (AttribAccess_init sreg ax) identifier pu nm0)"
    by blast
  then show ?thesis
    by (simp add: lookup_stripped final_ud_providerName kept_def provider_name_def)
qed

theorem providerName_always_present_witness:
  "extract_openid_data sreg_data_fields ''https://me.yahoo.com/carol'' None None =
     Inr [(''identifier'', PStr ''https://me.yahoo.com/carol''),
          (''providerName'', PStr ''Yahoo''),
          (''name'', PDict [(''formatted'', PNone)])] \<and>
   map_of [(''identifier'', PStr ''https://me.yahoo.com/carol''),
          (''providerName'', PStr ''Yahoo''),
          (''name'', PDict [(''formatted'', PNone)])] ''providerName'' \<in>
     {Some (PStr ''Google''), Some (PStr ''Yahoo''), Some (PStr ''OpenID'')}"
proof -
  have h: "extract_openid_data sreg_data_fields ''https://me.yahoo.com/carol'' None None =
     Inr [(''identifier'', PStr ''https://me.yahoo.com/carol''),
          (''providerName'', PStr ''Yahoo''),
          (''name'', PDict [(''formatted'', PNone)])]"
    by code_simp
  show ?thesis
    using h providerName_always_present [OF h] by simp
qed

end
